theory Spec2Isabelle
  imports Main
begin

section \<open>The setup script of Multi-Agent Nexus: liveness and supervision\<close>

text \<open>
  A shallow embedding of \<^verbatim>\<open>scripts/setup.py\<close>. The script talks to the operating system
  all the time; the model makes that explicit in two parts.

  \<^item> \<open>env\<close> holds what the script can ask the machine and what the machine answers:
    the platform name, whether a command resolves to an executable
    (\<^verbatim>\<open>shutil.which\<close>), the exit status of a finished command, whether a signal can be
    delivered. These answers stay fixed during one run of the script.
  \<^item> \<open>world\<close> holds what the script changes: the files and directories of the working
    directory, the lines still to be read from standard input, the text printed, the
    processes started, the signals delivered, the heartbeat threads started in the
    process and the handlers registered with \<^verbatim>\<open>atexit\<close>.

  A Python exception is a value: every operation returns \<open>Return v w\<close> or
  \<open>Raise x w\<close>, where \<open>w\<close> is the state at that moment, so that \<^verbatim>\<open>try/except\<close>
  continues from the world in which the exception was raised.
\<close>

subsection \<open>Environment, world, exceptions\<close>

record env =
  platform_system :: string
  environ :: "string \<Rightarrow> bool"
  stdout_isatty :: bool
  which :: "string \<Rightarrow> bool"
  exit_status :: "string list \<Rightarrow> int"
  kill_ok :: "int \<Rightarrow> bool"

datatype stream = Inherit | DevNull

text \<open>
  A started process: \<open>Run\<close> is \<^verbatim>\<open>subprocess.run\<close> (the script waits for it),
  \<open>Popen\<close> is \<^verbatim>\<open>subprocess.Popen\<close> (the script does not wait; the flag is
  \<^verbatim>\<open>shell=True\<close>). The two streams are \<^verbatim>\<open>stdout\<close> and \<^verbatim>\<open>stderr\<close>.
\<close>

datatype launch =
  Run "string list" stream stream
| Popen "string list" bool stream stream

record world =
  files :: "string \<Rightarrow> string option"
  dirs :: "string set"
  stdin :: "string list"
  stdout :: "string list"
  launched :: "launch list"
  signalled :: "int list"
  threads :: "string list"
  atexit :: nat

datatype exn =
  FileNotFoundError string
| IsADirectoryError string
| FileExistsError string
| ValueError
| ProcessLookupError int
| CalledProcessError "string list" int
| EOFError

datatype ('a, 's) result = Return 'a 's | Raise exn 's

text \<open>Sequencing: an exception skips the rest.\<close>

definition and_then :: "('a, 's) result \<Rightarrow> ('a \<Rightarrow> 's \<Rightarrow> ('b, 's) result) \<Rightarrow> ('b, 's) result" where
  "and_then r f = (case r of Return v w \<Rightarrow> f v w | Raise x w \<Rightarrow> Raise x w)"

text \<open>\<^verbatim>\<open>try: ... except: pass\<close>: whatever happened, go on from the state reached.\<close>

definition except_pass :: "('a, 's) result \<Rightarrow> 's" where
  "except_pass r = (case r of Return v w \<Rightarrow> w | Raise x w \<Rightarrow> w)"

subsection \<open>Colours and printing\<close>

definition ESC :: char where "ESC = CHR 0x1B"
definition NL :: char where "NL = CHR 0x0A"

definition BLUE :: string where "BLUE = ESC # ''[1;34m''"
definition GREEN :: string where "GREEN = ESC # ''[1;32m''"
definition YELLOW :: string where "YELLOW = ESC # ''[1;33m''"
definition RED :: string where "RED = ESC # ''[1;31m''"
definition MAGENTA :: string where "MAGENTA = ESC # ''[1;35m''"
definition CYAN :: string where "CYAN = ESC # ''[1;36m''"
definition RESET :: string where "RESET = ESC # ''[0m''"

definition supports_color :: "env \<Rightarrow> bool" where
  "supports_color e =
     (if platform_system e = ''Windows''
      then environ e ''ANSICON'' \<or> environ e ''WT_SESSION''
      else stdout_isatty e)"

definition colorize :: "env \<Rightarrow> string \<Rightarrow> string \<Rightarrow> string" where
  "colorize e text color = (if supports_color e then color @ text @ RESET else text)"

text \<open>One entry of \<open>stdout\<close> per call of \<^verbatim>\<open>print\<close>, without the final newline.\<close>

definition py_print :: "string \<Rightarrow> world \<Rightarrow> world" where
  "py_print s w = w\<lparr>stdout := stdout w @ [s]\<rparr>"

text \<open>\<^verbatim>\<open>print(a, b)\<close> joins its arguments with one space.\<close>

definition py_print2 :: "string \<Rightarrow> string \<Rightarrow> world \<Rightarrow> world" where
  "py_print2 a b w = py_print (a @ '' '' @ b) w"

subsection \<open>Operating-system calls\<close>

definition get_os_info :: "env \<Rightarrow> string \<times> string" where
  "get_os_info e =
     (let os_name = platform_system e in
      if os_name = ''Darwin'' then (''macOS'', ''darwin'')
      else if os_name = ''Windows'' then (''Windows'', ''win32'')
      else (''Linux'', ''linux''))"

text \<open>
  Starting a program raises \<^verbatim>\<open>FileNotFoundError\<close> when its first word does not resolve
  to an executable; \<open>which\<close> answers that for a bare name (looked up on the path) as
  for a relative path such as \<^verbatim>\<open>./scripts/watch_events.sh\<close> (the file exists and may
  be executed). A started program is recorded; its exit status is the machine's answer.
  With \<^verbatim>\<open>shell=True\<close> the shell is what is started, and it reports a missing program
  itself: the call does not raise.
\<close>

definition subprocess_run ::
    "env \<Rightarrow> string list \<Rightarrow> stream \<Rightarrow> stream \<Rightarrow> world \<Rightarrow> (int, world) result" where
  "subprocess_run e argv out err w =
     (if which e (hd argv)
      then Return (exit_status e argv) (w\<lparr>launched := launched w @ [Run argv out err]\<rparr>)
      else Raise (FileNotFoundError (hd argv)) w)"

text \<open>\<^verbatim>\<open>subprocess.run(..., check=True)\<close>: a non-zero exit status raises too.\<close>

definition subprocess_run_check :: "env \<Rightarrow> string list \<Rightarrow> world \<Rightarrow> (int, world) result" where
  "subprocess_run_check e argv w =
     and_then (subprocess_run e argv Inherit Inherit w)
       (\<lambda>rc w'. if rc \<noteq> 0 then Raise (CalledProcessError argv rc) w' else Return rc w')"

definition subprocess_Popen ::
    "env \<Rightarrow> string list \<Rightarrow> bool \<Rightarrow> stream \<Rightarrow> stream \<Rightarrow> world \<Rightarrow> (unit, world) result" where
  "subprocess_Popen e argv shell out err w =
     (if shell \<or> which e (hd argv)
      then Return () (w\<lparr>launched := launched w @ [Popen argv shell out err]\<rparr>)
      else Raise (FileNotFoundError (hd argv)) w)"

definition os_path_exists :: "string \<Rightarrow> world \<Rightarrow> bool" where
  "os_path_exists p w = (p \<in> dirs w \<or> files w p \<noteq> None)"

definition os_remove :: "string \<Rightarrow> world \<Rightarrow> (unit, world) result" where
  "os_remove p w =
     (if files w p \<noteq> None then Return () (w\<lparr>files := (files w)(p := None)\<rparr>)
      else if p \<in> dirs w then Raise (IsADirectoryError p) w
      else Raise (FileNotFoundError p) w)"

text \<open>
  \<^verbatim>\<open>os.kill(pid, signal.SIGTERM)\<close>: delivered and recorded, or an exception. The process
  signalled is taken to be another one: a PID that names the script itself or its process
  group (0, -1, its own PID) would end the script at this call, which the model does not
  show.
\<close>

definition os_kill :: "env \<Rightarrow> int \<Rightarrow> world \<Rightarrow> (unit, world) result" where
  "os_kill e pid w =
     (if kill_ok e pid then Return () (w\<lparr>signalled := signalled w @ [pid]\<rparr>)
      else Raise (ProcessLookupError pid) w)"

subsection \<open>Reading a PID: \<^verbatim>\<open>int(f.read().strip())\<close>\<close>

text \<open>
  Python's \<^verbatim>\<open>str.strip\<close> and \<^verbatim>\<open>int\<close> on text of ASCII characters: white space is
  removed at both ends, then an optional sign and decimal digits are read, where single
  underscores may stand between digits. Anything else is \<^verbatim>\<open>ValueError\<close>, here \<open>None\<close>.
  The length of the digit string is not bounded here; CPython from 3.11 on also rejects
  more than 4300 digits.
\<close>

definition py_isspace :: "char \<Rightarrow> bool" where
  "py_isspace c = (let n = (of_char c :: nat) in (9 \<le> n \<and> n \<le> 13) \<or> (28 \<le> n \<and> n \<le> 32))"

definition py_strip :: "string \<Rightarrow> string" where
  "py_strip s = rev (dropWhile py_isspace (rev (dropWhile py_isspace s)))"

definition is_digit :: "char \<Rightarrow> bool" where
  "is_digit c = (let n = (of_char c :: nat) in 48 \<le> n \<and> n \<le> 57)"

definition digit_val :: "char \<Rightarrow> nat" where
  "digit_val c = of_char c - 48"

fun py_digits :: "nat \<Rightarrow> string \<Rightarrow> nat option" where
  "py_digits acc [] = Some acc"
| "py_digits acc [c] = (if is_digit c then Some (10 * acc + digit_val c) else None)"
| "py_digits acc (c # d # cs) =
     (if is_digit c then py_digits (10 * acc + digit_val c) (d # cs)
      else if c = CHR ''_'' \<and> is_digit d then py_digits acc (d # cs)
      else None)"

definition py_nat :: "string \<Rightarrow> nat option" where
  "py_nat s = (case s of [] \<Rightarrow> None | c # cs \<Rightarrow> if is_digit c then py_digits 0 s else None)"

definition py_int :: "string \<Rightarrow> int option" where
  "py_int s =
     (case py_strip s of
        [] \<Rightarrow> None
      | c # cs \<Rightarrow>
          if c = CHR ''-'' then map_option (\<lambda>n. - int n) (py_nat cs)
          else if c = CHR ''+'' then map_option int (py_nat cs)
          else map_option int (py_nat (c # cs)))"

text \<open>
  \<^verbatim>\<open>with open(p, 'r') as f: pid = int(f.read().strip())\<close>: opening a directory or a
  missing file raises, and so does text that is no integer.
\<close>

definition read_pid :: "string \<Rightarrow> world \<Rightarrow> (int, world) result" where
  "read_pid p w =
     (case files w p of
        None \<Rightarrow> Raise (if p \<in> dirs w then IsADirectoryError p else FileNotFoundError p) w
      | Some content \<Rightarrow>
          (case py_int (py_strip content) of
             None \<Rightarrow> Raise ValueError w
           | Some pid \<Rightarrow> Return pid w))"

subsection \<open>\<^verbatim>\<open>start_heartbeat\<close>\<close>

definition heartbeat_pid_file :: "string \<Rightarrow> string" where
  "heartbeat_pid_file agent_id = ''.heartbeat_'' @ agent_id @ ''.pid''"

text \<open>
  The block under \<^verbatim>\<open># Clean up any existing heartbeat process\<close> (lines 309 to 321),
  what the specification calls \<^verbatim>\<open>terminate_and_clear\<close>. The inner \<^verbatim>\<open>try\<close> guards the
  signal only; the outer one guards reading, parsing and removing.
\<close>

definition terminate_and_clear :: "env \<Rightarrow> string \<Rightarrow> world \<Rightarrow> world" where
  "terminate_and_clear e agent_id w =
     (let p = heartbeat_pid_file agent_id in
      if os_path_exists p w
      then except_pass
             (and_then (read_pid p w)
                (\<lambda>pid w1. os_remove p (except_pass (os_kill e pid w1))))
      else w)"

text \<open>
  The heartbeat itself is a daemon thread of the running process: \<open>threads\<close> gets the
  agent id. No file is written anywhere in this function.
\<close>

definition start_heartbeat :: "env \<Rightarrow> string \<Rightarrow> world \<Rightarrow> (bool, world) result" where
  "start_heartbeat e agent_id w =
     (let w1 = terminate_and_clear e agent_id w;
          w2 = py_print ''Starting automatic heartbeat...'' w1;
          w3 = w2\<lparr>threads := threads w2 @ [agent_id]\<rparr>;
          w4 = w3\<lparr>atexit := atexit w3 + 1\<rparr>
      in Return True w4)"

subsection \<open>The heartbeat thread\<close>

text \<open>
  \<^verbatim>\<open>heartbeat_thread\<close> runs beside the main sequence for as long as the process lives,
  so the machine's answers may change from one iteration to the next: \<open>machine i\<close>
  is the environment met by iteration \<open>i\<close>. The state of the thread counts the
  iterations done (\<open>ticks\<close>, which picks the machine's answer), adds up the seconds slept
  (\<open>clock\<close>) and records what the thread did: each call of the report command with the
  clock at that moment and how the call ended, and each sleep with its length.
  \<open>os_type\<close> and \<open>agent_id\<close> are the variables the closure captures.
\<close>

datatype outcome = Exited int | Raised exn

datatype hb_event = Report nat "string list" outcome | Sleep nat

record hb_state =
  ticks :: nat
  clock :: nat
  trace :: "hb_event list"

definition heartbeat_command :: "env \<Rightarrow> string \<Rightarrow> string \<Rightarrow> string list" where
  "heartbeat_command e os_type agent_id =
     (if os_type = ''Windows''
      then [if which e ''bash.exe'' then ''bash.exe'' else ''sh.exe'',
            ''scripts/agent_status.sh'', ''heartbeat'', agent_id]
      else [''./scripts/agent_status.sh'', ''heartbeat'', agent_id])"

text \<open>How a call of \<^verbatim>\<open>subprocess.run\<close> ends on a machine, as \<open>subprocess_run\<close> has it.\<close>

definition run_outcome :: "env \<Rightarrow> string list \<Rightarrow> outcome" where
  "run_outcome e argv =
     (if which e (hd argv) then Exited (exit_status e argv)
      else Raised (FileNotFoundError (hd argv)))"

text \<open>The body of the \<^verbatim>\<open>try\<close>: one call of the report command, output discarded.\<close>

definition report_heartbeat ::
    "env \<Rightarrow> string \<Rightarrow> string \<Rightarrow> hb_state \<Rightarrow> (int, hb_state) result" where
  "report_heartbeat e os_type agent_id s =
     (let argv = heartbeat_command e os_type agent_id;
          s1 = s\<lparr>trace := trace s @ [Report (clock s) argv (run_outcome e argv)]\<rparr>
      in case run_outcome e argv of
           Exited rc \<Rightarrow> Return rc s1
         | Raised x \<Rightarrow> Raise x s1)"

definition time_sleep :: "nat \<Rightarrow> hb_state \<Rightarrow> hb_state" where
  "time_sleep n s = s\<lparr>clock := clock s + n, trace := trace s @ [Sleep n]\<rparr>"

text \<open>One turn of \<^verbatim>\<open>while True\<close>: \<^verbatim>\<open>try: report  except: pass\<close>, then \<^verbatim>\<open>time.sleep(60)\<close>.\<close>

definition heartbeat_body :: "(nat \<Rightarrow> env) \<Rightarrow> string \<Rightarrow> string \<Rightarrow> hb_state \<Rightarrow> hb_state" where
  "heartbeat_body machine os_type agent_id s =
     (let s1 = except_pass (report_heartbeat (machine (ticks s)) os_type agent_id s);
          s2 = time_sleep 60 s1
      in s2\<lparr>ticks := ticks s2 + 1\<rparr>)"

text \<open>
  The loop has no exit: the function returns \<open>Some\<close> final state if the loop ever ends
  and is \<open>None\<close> otherwise.
\<close>

partial_function (option) heartbeat_thread ::
    "(nat \<Rightarrow> env) \<Rightarrow> string \<Rightarrow> string \<Rightarrow> hb_state \<Rightarrow> hb_state option" where
  "heartbeat_thread machine os_type agent_id s =
     heartbeat_thread machine os_type agent_id (heartbeat_body machine os_type agent_id s)"

text \<open>The state after the first \<open>n\<close> turns of the loop.\<close>

fun heartbeat_turns :: "nat \<Rightarrow> (nat \<Rightarrow> env) \<Rightarrow> string \<Rightarrow> string \<Rightarrow> hb_state \<Rightarrow> hb_state" where
  "heartbeat_turns 0 machine os_type agent_id s = s"
| "heartbeat_turns (Suc n) machine os_type agent_id s =
     heartbeat_turns n machine os_type agent_id (heartbeat_body machine os_type agent_id s)"

definition hb_start :: hb_state where
  "hb_start = \<lparr>ticks = 0, clock = 0, trace = []\<rparr>"

text \<open>
  What turn \<open>i\<close> of the loop records when the loop was entered after \<open>k\<close> turns with the
  clock at \<open>t\<close>: the report, then the sleep.
\<close>

definition turn_events ::
    "(nat \<Rightarrow> env) \<Rightarrow> string \<Rightarrow> string \<Rightarrow> nat \<Rightarrow> nat \<Rightarrow> nat \<Rightarrow> hb_event list" where
  "turn_events machine os_type agent_id k t i =
     [Report (t + 60 * i) (heartbeat_command (machine (k + i)) os_type agent_id)
        (run_outcome (machine (k + i)) (heartbeat_command (machine (k + i)) os_type agent_id)),
      Sleep 60]"

subsection \<open>\<^verbatim>\<open>start_monitoring\<close>\<close>

text \<open>
  The branch for Linux and macOS (lines 277 to 301). It returns
  \<^verbatim>\<open>terminal_options\<close>, the local list that decides whether the note is printed.
\<close>

definition unix_monitors :: "env \<Rightarrow> world \<Rightarrow> (string list, world) result" where
  "unix_monitors e w =
     (if which e ''screen'' then
        and_then
          (subprocess_run e [''screen'', ''-dmS'', ''event_monitor'', ''./scripts/watch_events.sh'']
             Inherit Inherit (py_print ''Starting event monitor in screen session...'' w))
          (\<lambda>_ w1. and_then
             (subprocess_run e
                [''screen'', ''-dmS'', ''agent_monitor'', ''watch'', ''-n'', ''10'',
                 ''./scripts/agent_status.sh'', ''list'']
                Inherit Inherit w1)
             (\<lambda>_ w2. Return [''screen''] w2))
      else if which e ''tmux'' then
        and_then
          (subprocess_run e
             [''tmux'', ''new-session'', ''-d'', ''-s'', ''event_monitor'', ''./scripts/watch_events.sh'']
             Inherit Inherit (py_print ''Starting event monitor in tmux session...'' w))
          (\<lambda>_ w1. and_then
             (subprocess_run e
                [''tmux'', ''new-session'', ''-d'', ''-s'', ''agent_monitor'',
                 ''watch -n 10 ./scripts/agent_status.sh list'']
                Inherit Inherit w1)
             (\<lambda>_ w2. Return [''tmux''] w2))
      else
        and_then
          (subprocess_Popen e [''./scripts/watch_events.sh''] False DevNull DevNull
             (py_print ''Starting event monitor in background...'' w))
          (\<lambda>_ w1. Return [] w1))"

definition install_note :: string where
  "install_note = ''NOTE: Install 'screen' or 'tmux' for better background process management.''"

text \<open>
  \<^verbatim>\<open># Kill any existing monitoring processes\<close> (lines 259 to 264): \<^verbatim>\<open>pkill\<close> by command
  line, its failure ignored.
\<close>

definition kill_stale :: "env \<Rightarrow> string \<Rightarrow> world \<Rightarrow> world" where
  "kill_stale e os_type w =
     (if os_type \<noteq> ''Windows''
      then except_pass
             (subprocess_run e [''pkill'', ''-f'', ''scripts/watch_events.sh''] Inherit DevNull w)
      else w)"

definition start_monitoring :: "env \<Rightarrow> world \<Rightarrow> (bool, world) result" where
  "start_monitoring e w =
     (let w1 = py_print (colorize e (NL # ''Starting system services...'') MAGENTA) w;
          os_type = fst (get_os_info e);
          w2 = kill_stale e os_type w1
      in and_then
           (if os_type = ''Windows'' then
              (let w3 = py_print ''Starting event monitoring in a new window...'' w2 in
               if which e ''start''
               then subprocess_Popen e [''start'', ''bash.exe'', ''scripts/watch_events.sh'']
                      True Inherit Inherit w3
               else Return ()
                      (py_print ''Please open a new terminal and run: bash.exe scripts/watch_events.sh''
                         (py_print (colorize e ''Warning: Unable to start monitoring automatically.'' YELLOW)
                            w3)))
            else if os_type = ''Linux'' \<or> os_type = ''macOS'' then
              and_then (unix_monitors e w2)
                (\<lambda>terminal_options w3.
                   Return ()
                     (if terminal_options = [] then py_print (colorize e install_note YELLOW) w3
                      else w3))
            else Return () w2)
           (\<lambda>_ w3. Return True w3))"

subsection \<open>Dependencies\<close>

text \<open>The check mark of the success messages, as its three bytes in UTF-8.\<close>

definition check_mark :: string where
  "check_mark = [CHR 0xE2, CHR 0x9C, CHR 0x93]"

definition DQ :: char where "DQ = CHR 0x22"
definition BSL :: char where "BSL = CHR 0x5C"
definition SQ :: char where "SQ = CHR 0x27"

fun join_with :: "string \<Rightarrow> string list \<Rightarrow> string" where
  "join_with sep [] = []"
| "join_with sep [x] = x"
| "join_with sep (x # y # ys) = x @ sep @ join_with sep (y # ys)"

definition check_dependencies :: "env \<Rightarrow> world \<Rightarrow> string list \<times> world" where
  "check_dependencies e w =
     (let os_type = fst (get_os_info e);
          w1 = py_print2 (colorize e ''[1/5]'' BLUE) ''Checking dependencies...'' w;
          m1 = (if \<not> which e ''jq'' then [''jq''] else []);
          m2 = (if os_type = ''Linux'' \<and> \<not> which e ''inotifywait''
                then m1 @ [''inotify-tools''] else m1);
          m3 = (if os_type = ''macOS'' \<and> \<not> which e ''fswatch''
                then m2 @ [''fswatch''] else m2)
      in (m3, w1))"

text \<open>\<^verbatim>\<open>for dep in deps: print(f"  - {dep}")\<close>\<close>

fun print_deps :: "string list \<Rightarrow> world \<Rightarrow> world" where
  "print_deps [] w = w"
| "print_deps (dep # deps) w = print_deps deps (py_print (''  - '' @ dep) w)"

text \<open>\<^verbatim>\<open>for dep in deps: subprocess.run(cmd(dep), check=True)\<close>\<close>

fun run_each ::
    "env \<Rightarrow> (string \<Rightarrow> string list) \<Rightarrow> string list \<Rightarrow> world \<Rightarrow> (unit, world) result" where
  "run_each e cmd [] w = Return () w"
| "run_each e cmd (dep # deps) w =
     and_then (subprocess_run_check e (cmd dep) w) (\<lambda>_ w1. run_each e cmd deps w1)"

definition win_pkg :: "string \<Rightarrow> string" where
  "win_pkg dep =
     (if dep = ''jq'' then ''jq''
      else if dep = ''inotify-tools'' then ''fswatch''
      else dep)"

text \<open>
  The body of the \<^verbatim>\<open>try\<close> of \<^verbatim>\<open>install_dependencies\<close>. \<open>Some b\<close> is a
  \<^verbatim>\<open>return b\<close> inside the block, \<open>None\<close> is reaching its end.
\<close>

definition install_attempt :: "env \<Rightarrow> string list \<Rightarrow> world \<Rightarrow> (bool option, world) result" where
  "install_attempt e missing_deps w =
     (let os_type = fst (get_os_info e) in
      if os_type = ''Linux'' then
        (if which e ''apt-get'' then
           and_then (subprocess_run_check e [''sudo'', ''apt-get'', ''update''] w)
             (\<lambda>_ w1. and_then
                (subprocess_run_check e ([''sudo'', ''apt-get'', ''install'', ''-y''] @ missing_deps) w1)
                (\<lambda>_ w2. Return None w2))
         else if which e ''yum'' then
           and_then (subprocess_run_check e ([''sudo'', ''yum'', ''install'', ''-y''] @ missing_deps) w)
             (\<lambda>_ w1. Return None w1)
         else
           Return (Some False)
             (print_deps missing_deps
                (py_print
                   (colorize e
                      ''Unsupported Linux distribution. Please install dependencies manually:'' RED)
                   w)))
      else if os_type = ''macOS'' then
        (if which e ''brew'' then
           and_then (run_each e (\<lambda>dep. [''brew'', ''install'', dep]) missing_deps w)
             (\<lambda>_ w1. Return None w1)
         else
           Return (Some False)
             (py_print
                (''  /bin/bash -c '' @ [DQ] @
                 ''$(curl -fsSL https://raw.githubusercontent.com/Homebrew/install/HEAD/install.sh)''
                 @ [DQ])
                (py_print (colorize e ''Homebrew not found. Please install it first:'' RED) w)))
      else if os_type = ''Windows'' then
        (if which e ''choco'' then
           and_then (run_each e (\<lambda>dep. [''choco'', ''install'', ''-y'', win_pkg dep]) missing_deps w)
             (\<lambda>_ w1. Return None w1)
         else
           (let w1 = py_print (colorize e ''Chocolatey not found. Please install it first:'' RED) w;
                w2 = py_print ''  https://chocolatey.org/install'' w1;
                w3 = py_print (NL # ''Or install these dependencies manually:'') w2;
                w4 = py_print ''  - jq: https://stedolan.github.io/jq/download/'' w3;
                w5 = (if ''inotify-tools'' \<in> set missing_deps
                      then py_print ''  - For file watching: https://github.com/thekid/inotify-win'' w4
                      else w4)
            in Return (Some False) w5))
      else Return None w)"

text \<open>
  Only \<^verbatim>\<open>subprocess.CalledProcessError\<close> is caught: a package manager that ran and
  failed. A command that could not be started at all raises through.
\<close>

definition install_dependencies :: "env \<Rightarrow> string list \<Rightarrow> world \<Rightarrow> (bool, world) result" where
  "install_dependencies e missing_deps w =
     (if missing_deps = []
      then Return True
             (py_print (colorize e (check_mark @ '' All dependencies are installed.'') GREEN) w)
      else
        (case install_attempt e missing_deps
                (py_print
                   (colorize e
                      (''Installing missing dependencies: '' @ join_with '', '' missing_deps) YELLOW)
                   w) of
           Raise (CalledProcessError argv rc) w1 \<Rightarrow>
             Return False
               (print_deps missing_deps
                  (py_print
                     (colorize e ''Error installing dependencies. Please install them manually:'' RED)
                     w1))
         | Raise x w1 \<Rightarrow> Raise x w1
         | Return (Some b) w1 \<Rightarrow> Return b w1
         | Return None w1 \<Rightarrow>
             Return True
               (py_print (colorize e (check_mark @ '' Dependencies installed successfully.'') GREEN)
                  w1)))"

subsection \<open>Scaffolding and registration\<close>

text \<open>
  The one-shot steps that \<^verbatim>\<open>main\<close> runs around the supervision core. File modes are
  not part of the world, so the \<^verbatim>\<open>os.chmod\<close> calls of \<^verbatim>\<open>make_scripts_executable\<close> leave
  it unchanged and are taken to succeed (on a script the user may not change, or a
  dangling link, \<^verbatim>\<open>os.chmod\<close> would raise). \<^verbatim>\<open>print_banner\<close> and \<^verbatim>\<open>show_quick_reference\<close> only print fixed text and
  are left out.
\<close>

text \<open>\<^verbatim>\<open>os.makedirs("logs", exist_ok=True)\<close> fails when \<^verbatim>\<open>logs\<close> is a regular file.\<close>

definition setup_directories :: "env \<Rightarrow> world \<Rightarrow> (unit, world) result" where
  "setup_directories e w =
     (let w1 = py_print2 (colorize e ''[2/5]'' BLUE) ''Setting up directory structure...'' w in
      if files w1 ''logs'' \<noteq> None then Raise (FileExistsError ''logs'') w1
      else Return ()
             (py_print (colorize e (check_mark @ '' Directory structure set up.'') GREEN)
                (w1\<lparr>dirs := insert ''logs'' (dirs w1)\<rparr>)))"

definition create_if_missing :: "string \<Rightarrow> string \<Rightarrow> world \<Rightarrow> world" where
  "create_if_missing p content w =
     (if \<not> os_path_exists p w then w\<lparr>files := (files w)(p \<mapsto> content)\<rparr> else w)"

definition initialize_files :: "env \<Rightarrow> world \<Rightarrow> world" where
  "initialize_files e w =
     (let w1 = py_print2 (colorize e ''[3/5]'' BLUE) ''Initializing log files...'' w;
          w2 = create_if_missing ''events.log'' [] w1;
          w3 = create_if_missing ''agent_status.json'' ''[]'' w2;
          w4 = create_if_missing ''communication.md'' (''# Communication Log'' @ [NL]) w3;
          w5 = create_if_missing ''archive.md'' (''# Archived Communications'' @ [NL]) w4
      in py_print (colorize e (check_mark @ '' Log files initialized.'') GREEN) w5)"

definition make_scripts_executable :: "env \<Rightarrow> world \<Rightarrow> world" where
  "make_scripts_executable e w =
     py_print (colorize e (check_mark @ '' Scripts are now executable.'') GREEN)
       (py_print2 (colorize e ''[4/5]'' BLUE) ''Making scripts executable...'' w)"

text \<open>\<^verbatim>\<open>input(prompt)\<close>: the prompt is written, one line is read; no line left is \<^verbatim>\<open>EOFError\<close>.\<close>

definition py_input :: "string \<Rightarrow> world \<Rightarrow> (string, world) result" where
  "py_input prompt w =
     (let w1 = py_print prompt w in
      case stdin w1 of
        [] \<Rightarrow> Raise EOFError w1
      | line # rest \<Rightarrow> Return line (w1\<lparr>stdin := rest\<rparr>))"

definition configure_agent :: "env \<Rightarrow> world \<Rightarrow> (string \<times> string \<times> string, world) result" where
  "configure_agent e w =
     and_then
       (py_input ''Enter your agent ID (e.g., agent1): ''
          (py_print2 (colorize e ''[5/5]'' BLUE) ''Configuring your agent...'' w))
       (\<lambda>agent_id w1. and_then
          (py_input ''Enter your agent type (e.g., llm, coding, research): '' w1)
          (\<lambda>agent_type w2. and_then
             (py_input ''Enter a brief agent description: '' w2)
             (\<lambda>description w3. Return (agent_id, agent_type, description) w3)))"

definition shell_cmd :: "env \<Rightarrow> string" where
  "shell_cmd e = (if which e ''bash.exe'' then ''bash.exe'' else ''sh.exe'')"

definition register_agent ::
    "env \<Rightarrow> string \<Rightarrow> string \<Rightarrow> string \<Rightarrow> world \<Rightarrow> (unit, world) result" where
  "register_agent e agent_id agent_type description w =
     (let os_type = fst (get_os_info e);
          prefix = (if os_type = ''Windows'' then [shell_cmd e, ''scripts/agent_status.sh'']
                    else [''./scripts/agent_status.sh''])
      in and_then
           (subprocess_run e (prefix @ [''register'', agent_id, agent_type, description])
              Inherit Inherit w)
           (\<lambda>_ w1. and_then
              (subprocess_run e
                 (prefix @ [''status'', agent_id, ''active'', ''Starting up and ready for collaboration''])
                 Inherit Inherit w1)
              (\<lambda>_ w2. Return () w2)))"

text \<open>
  \<^verbatim>\<open>json.dumps\<close> of a dictionary of strings, for text of ASCII characters: quotes and
  backslashes are escaped, and a character outside the printable range is written
  \<^verbatim>\<open>\u00XX\<close> or by its short escape.
\<close>

definition hex_digit :: "nat \<Rightarrow> char" where
  "hex_digit n = ''0123456789abcdef'' ! (n mod 16)"

definition json_escape_char :: "char \<Rightarrow> string" where
  "json_escape_char c =
     (let n = (of_char c :: nat) in
      if c = DQ then [BSL, DQ]
      else if c = BSL then [BSL, BSL]
      else if n = 10 then [BSL, CHR ''n'']
      else if n = 13 then [BSL, CHR ''r'']
      else if n = 9 then [BSL, CHR ''t'']
      else if n = 8 then [BSL, CHR ''b'']
      else if n = 12 then [BSL, CHR ''f'']
      else if n < 32 \<or> n = 127 then BSL # ''u00'' @ [hex_digit (n div 16), hex_digit n]
      else [c])"

definition json_string :: "string \<Rightarrow> string" where
  "json_string s = [DQ] @ concat (map json_escape_char s) @ [DQ]"

definition json_dumps :: "(string \<times> string) list \<Rightarrow> string" where
  "json_dumps d =
     ''{'' @ join_with '', '' (map (\<lambda>(k, v). json_string k @ '': '' @ json_string v) d) @ ''}''"

definition send_message :: "env \<Rightarrow> string \<Rightarrow> string \<Rightarrow> string \<Rightarrow> world \<Rightarrow> (unit, world) result" where
  "send_message e agent_id agent_type message w =
     (let os_type = fst (get_os_info e);
          json_data = json_dumps [(''from'', agent_id), (''to'', ''all''), (''message'', message)];
          argv = (if os_type = ''Windows''
                  then [shell_cmd e, ''scripts/log_event.sh'', ''message'', json_data]
                  else [''./scripts/log_event.sh'', ''message'', json_data])
      in and_then (subprocess_run e argv Inherit Inherit w) (\<lambda>_ w1. Return () w1))"

definition generate_snapshot :: "env \<Rightarrow> world \<Rightarrow> (unit, world) result" where
  "generate_snapshot e w =
     (let os_type = fst (get_os_info e);
          argv = (if os_type = ''Windows'' then [shell_cmd e, ''scripts/generate_snapshot.sh'']
                  else [''./scripts/generate_snapshot.sh''])
      in and_then (subprocess_run e argv Inherit Inherit w) (\<lambda>_ w1. Return () w1))"

subsection \<open>\<^verbatim>\<open>main\<close>\<close>

text \<open>
  The steps after the dependency check, in the order of the source, in two parts: up to
  the start of the monitors, and from the registration of the agent to the end. The
  values returned by \<^verbatim>\<open>start_monitoring\<close> and \<^verbatim>\<open>start_heartbeat\<close> are dropped, as
  \<^verbatim>\<open>main\<close> drops them.
\<close>

definition join_collaboration ::
    "env \<Rightarrow> string \<Rightarrow> string \<Rightarrow> string \<Rightarrow> world \<Rightarrow> (int, world) result" where
  "join_collaboration e agent_id agent_type description w =
     and_then (register_agent e agent_id agent_type description w)
       (\<lambda>_ w1. and_then (start_heartbeat e agent_id w1)
          (\<lambda>_ w2. and_then
             (send_message e agent_id agent_type
                (agent_type @ '' agent '' @ [SQ] @ agent_id @ [SQ] @ '' has joined the collaboration.'')
                w2)
             (\<lambda>_ w3. and_then (generate_snapshot e w3)
                (\<lambda>_ w4. Return 0
                   (py_print (colorize e (''You're all set! Happy collaborating!'' @ [NL]) GREEN)
                      (py_print (''You can now begin collaborating with other agents.'' @ [NL])
                         (py_print ''Event monitoring is running in the background.''
                            (py_print
                               (''Your agent ID: '' @ colorize e agent_id CYAN
                                @ '' is registered and active.'')
                               (py_print (colorize e (NL # check_mark @ '' Setup complete!'') GREEN)
                                  w4)))))))))"

definition bring_up :: "env \<Rightarrow> world \<Rightarrow> (int, world) result" where
  "bring_up e w =
     and_then (setup_directories e w)
       (\<lambda>_ w1. and_then (configure_agent e (make_scripts_executable e (initialize_files e w1)))
          (\<lambda>(agent_id, agent_type, description) w2. and_then (start_monitoring e w2)
             (\<lambda>_ w3. join_collaboration e agent_id agent_type description w3)))"

definition main :: "env \<Rightarrow> world \<Rightarrow> (int, world) result" where
  "main e w =
     (let os_type = fst (get_os_info e);
          w1 = py_print (''Detected operating system: '' @ colorize e os_type CYAN @ [NL]) w;
          (missing_deps, w2) = check_dependencies e w1
      in and_then
           (if missing_deps \<noteq> []
            then and_then (install_dependencies e missing_deps w2) (\<lambda>ok w3. Return (\<not> ok) w3)
            else Return False w2)
           (\<lambda>give_up w3.
              if give_up
              then Return 1
                     (py_print ''Please install them manually and run this script again.''
                        (py_print
                           (colorize e
                              (NL # ''Setup cannot continue without required dependencies.'') RED)
                           w3))
              else bring_up e w3))"

text \<open>
  The world in which \<^verbatim>\<open>start_monitoring\<close> is called when nothing stood in the way of
  the scaffolding and the operator answered the three questions.
\<close>

definition prepared :: "env \<Rightarrow> world \<Rightarrow> world" where
  "prepared e w =
     (let w1 = py_print (colorize e (check_mark @ '' Directory structure set up.'') GREEN)
                 ((py_print2 (colorize e ''[2/5]'' BLUE) ''Setting up directory structure...'' w)
                    \<lparr>dirs := insert ''logs'' (dirs w)\<rparr>);
          w2 = py_print2 (colorize e ''[5/5]'' BLUE) ''Configuring your agent...''
                 (make_scripts_executable e (initialize_files e w1))
      in w2\<lparr>stdout := stdout w2 @
                [''Enter your agent ID (e.g., agent1): '',
                 ''Enter your agent type (e.g., llm, coding, research): '',
                 ''Enter a brief agent description: ''],
             stdin := drop 3 (stdin w)\<rparr>)"

subsection \<open>Reading results and traces\<close>

definition returned :: "('a, 's) result \<Rightarrow> 'a option" where
  "returned r = (case r of Return v w \<Rightarrow> Some v | Raise x w \<Rightarrow> None)"

definition raised :: "('a, 's) result \<Rightarrow> exn option" where
  "raised r = (case r of Return v w \<Rightarrow> None | Raise x w \<Rightarrow> Some x)"

fun program :: "launch \<Rightarrow> string" where
  "program (Run argv out err) = hd argv"
| "program (Popen argv shell out err) = hd argv"

fun background :: "launch \<Rightarrow> bool" where
  "background (Run argv out err) = False"
| "background (Popen argv shell out err) = True"

fun report_outcomes :: "hb_event list \<Rightarrow> outcome list" where
  "report_outcomes [] = []"
| "report_outcomes (Report t argv out # evs) = out # report_outcomes evs"
| "report_outcomes (Sleep n # evs) = report_outcomes evs"

fun report_times :: "hb_event list \<Rightarrow> nat list" where
  "report_times [] = []"
| "report_times (Report t argv out # evs) = t # report_times evs"
| "report_times (Sleep n # evs) = report_times evs"

fun sleeps :: "hb_event list \<Rightarrow> nat list" where
  "sleeps [] = []"
| "sleeps (Report t argv out # evs) = sleeps evs"
| "sleeps (Sleep n # evs) = n # sleeps evs"

subsection \<open>Concrete machines and working directories\<close>

text \<open>
  A machine of the given platform on which exactly the listed commands resolve; no
  colour, every command that runs exits with 0, every signal is delivered.
\<close>

definition machine_with :: "string \<Rightarrow> string list \<Rightarrow> env" where
  "machine_with os cmds =
     \<lparr>platform_system = os, environ = (\<lambda>_. False), stdout_isatty = False,
      which = (\<lambda>c. c \<in> set cmds), exit_status = (\<lambda>_. 0), kill_ok = (\<lambda>_. True)\<rparr>"

text \<open>The repository's scripts other than the event watcher, and the checked tools.\<close>

definition base_commands :: "string list" where
  "base_commands =
     [''jq'', ''inotifywait'', ''pkill'', ''./scripts/agent_status.sh'', ''./scripts/log_event.sh'',
      ''./scripts/generate_snapshot.sh'']"

definition watcher :: string where
  "watcher = ''./scripts/watch_events.sh''"

text \<open>
  A working directory in which none of the files the script reads or creates exists
  yet, with the operator's three answers waiting.
\<close>

definition fresh_world :: world where
  "fresh_world =
     \<lparr>files = Map.empty, dirs = {}, stdin = [''agent7'', ''llm'', ''demo''], stdout = [],
      launched = [], signalled = [], threads = [], atexit = 0\<rparr>"

text \<open>The same with a PID file for \<^verbatim>\<open>agent7\<close> whose content is no number.\<close>

definition stale_world :: world where
  "stale_world = fresh_world\<lparr>files := [''.heartbeat_agent7.pid'' \<mapsto> ''not-a-pid'']\<rparr>"

text \<open>A machine on which the report command is missing three times and then back.\<close>

definition flaky :: "nat \<Rightarrow> env" where
  "flaky i = machine_with ''Linux'' (if i < 3 then [] else [''./scripts/agent_status.sh''])"

section \<open>Properties\<close>

subsection \<open>Sequencing\<close>

lemma and_then_simps [simp]:
  "and_then (Return v w) f = f v w"
  "and_then (Raise x w) f = Raise x w"
  by (simp_all add: and_then_def)

lemma except_pass_simps [simp]:
  "except_pass (Return v w) = w"
  "except_pass (Raise x w) = w"
  by (simp_all add: except_pass_def)

lemma returned_simps [simp]:
  "returned (Return v w) = Some v"
  "returned (Raise x w) = None"
  by (simp_all add: returned_def)

lemma raised_simps [simp]:
  "raised (Return v w) = None"
  "raised (Raise x w) = Some x"
  by (simp_all add: raised_def)

subsection \<open>Cleaning up the PID record\<close>

text \<open>No file and no directory of that name: nothing happens.\<close>

lemma terminate_and_clear_absent:
  "\<not> os_path_exists (heartbeat_pid_file a) w \<Longrightarrow> terminate_and_clear e a w = w"
  by (simp add: terminate_and_clear_def)

lemma terminate_and_clear_no_file:
  assumes "files w (heartbeat_pid_file a) = None"
  shows "terminate_and_clear e a w = w"
  using assms
  by (simp add: terminate_and_clear_def os_path_exists_def read_pid_def Let_def)

text \<open>
  A record that holds a number: the process is signalled, and whether or not the signal
  could be delivered the file is removed.
\<close>

lemma terminate_and_clear_parsed:
  assumes "files w (heartbeat_pid_file a) = Some c" and "py_int (py_strip c) = Some pid"
  shows "terminate_and_clear e a w =
           w\<lparr>signalled := signalled w @ (if kill_ok e pid then [pid] else []),
             files := (files w)(heartbeat_pid_file a := None)\<rparr>"
  using assms
  by (simp add: terminate_and_clear_def os_path_exists_def read_pid_def os_kill_def os_remove_def)

text \<open>
  A record that holds no number: \<^verbatim>\<open>int\<close> raises inside the outer \<^verbatim>\<open>try\<close>, whose handler
  passes; \<^verbatim>\<open>os.remove\<close> is never reached and the file stays.
\<close>

lemma terminate_and_clear_unparsable:
  assumes "files w (heartbeat_pid_file a) = Some c" and "py_int (py_strip c) = None"
  shows "terminate_and_clear e a w = w"
  using assms
  by (simp add: terminate_and_clear_def os_path_exists_def read_pid_def)

lemma unparsable_content: "py_int (py_strip ''not-a-pid'') = None"
  by code_simp

lemma start_heartbeat_eq:
  "start_heartbeat e a w =
     Return True
       ((terminate_and_clear e a w)
          \<lparr>stdout := stdout (terminate_and_clear e a w) @ [''Starting automatic heartbeat...''],
           threads := threads (terminate_and_clear e a w) @ [a],
           atexit := atexit (terminate_and_clear e a w) + 1\<rparr>)"
  by (simp add: start_heartbeat_def py_print_def Let_def)

text \<open>Whatever the working directory holds, \<^verbatim>\<open>start_heartbeat\<close> creates no file in it.\<close>

lemma start_heartbeat_creates_no_file:
  "dom (files (except_pass (start_heartbeat e a w))) \<subseteq> dom (files w)"
proof (cases "files w (heartbeat_pid_file a)")
  case None
  then show ?thesis
    by (simp add: start_heartbeat_eq terminate_and_clear_no_file)
next
  case (Some c)
  then show ?thesis
    by (cases "py_int (py_strip c)")
       (auto simp: start_heartbeat_eq terminate_and_clear_unparsable terminate_and_clear_parsed
          split: if_splits)
qed

text \<open>
  Claim C1, amended. When the working directory has no PID file for an agent id,
  \<^verbatim>\<open>start_heartbeat\<close> creates no PID record: it prints its line, starts the heartbeat
  thread and registers the exit handler, and leaves files, directories and signals as they
  were. A second call for the same agent id does the same again: nothing is signalled,
  nothing is written, a second thread is started. So at no point is there a record for
  that agent id, let alone two.
\<close>

theorem start_heartbeat_writes_no_record:
  assumes "\<not> os_path_exists (heartbeat_pid_file a) w"
  shows "start_heartbeat e a w =
           Return True
             (w\<lparr>stdout := stdout w @ [''Starting automatic heartbeat...''],
               threads := threads w @ [a], atexit := atexit w + 1\<rparr>)
       \<and> start_heartbeat e a
           (w\<lparr>stdout := stdout w @ [''Starting automatic heartbeat...''],
              threads := threads w @ [a], atexit := atexit w + 1\<rparr>) =
           Return True
             (w\<lparr>stdout := stdout w @ [''Starting automatic heartbeat...'',
                                       ''Starting automatic heartbeat...''],
               threads := threads w @ [a, a], atexit := atexit w + 2\<rparr>)"
proof -
  let ?w1 = "w\<lparr>stdout := stdout w @ [''Starting automatic heartbeat...''],
               threads := threads w @ [a], atexit := atexit w + 1\<rparr>"
  have absent: "\<not> os_path_exists (heartbeat_pid_file a) ?w1"
    using assms by (simp add: os_path_exists_def)
  have first: "start_heartbeat e a w = Return True ?w1"
    by (simp add: start_heartbeat_eq terminate_and_clear_absent [OF assms])
  have second: "start_heartbeat e a ?w1 =
      Return True (w\<lparr>stdout := stdout w @ [''Starting automatic heartbeat...'',
                                       ''Starting automatic heartbeat...''],
               threads := threads w @ [a, a], atexit := atexit w + 2\<rparr>)"
    unfolding start_heartbeat_eq terminate_and_clear_absent [OF absent] by simp
  from first second show ?thesis by simp
qed

theorem start_heartbeat_writes_no_record_witness:
  "\<not> os_path_exists (heartbeat_pid_file ''agent7'') fresh_world
   \<and> start_heartbeat (machine_with ''Linux'' base_commands) ''agent7'' fresh_world =
       Return True
         (fresh_world\<lparr>stdout := [''Starting automatic heartbeat...''],
            threads := [''agent7''], atexit := 1\<rparr>)
   \<and> start_heartbeat (machine_with ''Linux'' base_commands) ''agent7''
         (fresh_world\<lparr>stdout := [''Starting automatic heartbeat...''],
            threads := [''agent7''], atexit := 1\<rparr>) =
       Return True
         (fresh_world\<lparr>stdout := [''Starting automatic heartbeat...'',
                                   ''Starting automatic heartbeat...''],
            threads := [''agent7'', ''agent7''], atexit := 2\<rparr>)"
proof -
  have absent: "\<not> os_path_exists (heartbeat_pid_file ''agent7'') fresh_world"
    by (simp add: os_path_exists_def fresh_world_def)
  show ?thesis
    using absent
      start_heartbeat_writes_no_record [OF absent, of "machine_with ''Linux'' base_commands"]
    by (simp add: fresh_world_def)
qed

text \<open>
  Claim C1 as stated fails: in a working directory without any PID file, on a machine
  where every signal would be delivered, the first \<^verbatim>\<open>start_heartbeat\<close> for \<^verbatim>\<open>agent7\<close>
  creates no file (no record is created), and after the second call still no signal has
  been sent and still no file exists.
\<close>

theorem start_heartbeat_one_record_counterexample:
  "files fresh_world (heartbeat_pid_file ''agent7'') = None
   \<and> files (except_pass (start_heartbeat (machine_with ''Linux'' base_commands) ''agent7'' fresh_world))
       = Map.empty
   \<and> signalled
       (except_pass
          (start_heartbeat (machine_with ''Linux'' base_commands) ''agent7''
             (except_pass
                (start_heartbeat (machine_with ''Linux'' base_commands) ''agent7'' fresh_world))))
       = []
   \<and> files
       (except_pass
          (start_heartbeat (machine_with ''Linux'' base_commands) ''agent7''
             (except_pass
                (start_heartbeat (machine_with ''Linux'' base_commands) ''agent7'' fresh_world))))
       = Map.empty"
  by (simp add: start_heartbeat_eq terminate_and_clear_no_file fresh_world_def)

text \<open>
  Claim C2 says that after the clean-up no stale PID file remains. The code at a
  working directory whose PID file for \<^verbatim>\<open>agent7\<close> holds \<^verbatim>\<open>not-a-pid\<close>: the clean-up
  returns the world it was given, the file included.
\<close>

theorem stale_record_survives_cleanup:
  "files stale_world (heartbeat_pid_file ''agent7'') = Some ''not-a-pid''
   \<and> terminate_and_clear (machine_with ''Linux'' base_commands) ''agent7'' stale_world = stale_world"
proof -
  have f: "files stale_world (heartbeat_pid_file ''agent7'') = Some ''not-a-pid''"
    by (simp add: stale_world_def fresh_world_def heartbeat_pid_file_def)
  from f terminate_and_clear_unparsable [OF f unparsable_content] show ?thesis by simp
qed

text \<open>
  Claim C3 says that an unparsable PID file is read as absent without raising and that
  the stale file is then removed. The code at the same working directory:
  \<^verbatim>\<open>start_heartbeat\<close> does return \<^verbatim>\<open>True\<close> and starts the thread, but the file is
  still there afterwards.
\<close>

theorem unparsable_record_left_in_place:
  "start_heartbeat (machine_with ''Linux'' base_commands) ''agent7'' stale_world =
     Return True
       (stale_world\<lparr>stdout := [''Starting automatic heartbeat...''],
          threads := [''agent7''], atexit := 1\<rparr>)
   \<and> files (except_pass (start_heartbeat (machine_with ''Linux'' base_commands) ''agent7'' stale_world))
        ''.heartbeat_agent7.pid'' = Some ''not-a-pid''"
proof -
  have f: "files stale_world (heartbeat_pid_file ''agent7'') = Some ''not-a-pid''"
    by (simp add: stale_world_def fresh_world_def heartbeat_pid_file_def)
  have "terminate_and_clear (machine_with ''Linux'' base_commands) ''agent7'' stale_world = stale_world"
    by (rule terminate_and_clear_unparsable [OF f unparsable_content])
  then show ?thesis
    by (simp add: start_heartbeat_eq) (simp add: stale_world_def fresh_world_def)
qed

subsection \<open>The heartbeat loop\<close>

lemma heartbeat_thread_no_result: "heartbeat_thread m os a s = Some r \<Longrightarrow> False"
  by (erule heartbeat_thread.raw_induct [rotated, where P = "\<lambda>_ _ _ _ _. False"]) blast

lemma heartbeat_thread_None: "heartbeat_thread m os a s = None"
  using heartbeat_thread_no_result [of m os a s] by (cases "heartbeat_thread m os a s") auto

text \<open>One turn: the report is recorded however it ended, then the sleep of 60 seconds.\<close>

lemma heartbeat_body_eq:
  "heartbeat_body m os a s =
     \<lparr>ticks = Suc (ticks s), clock = clock s + 60,
      trace = trace s @ turn_events m os a (ticks s) (clock s) 0\<rparr>"
  by (cases "run_outcome (m (ticks s)) (heartbeat_command (m (ticks s)) os a)")
     (simp_all add: heartbeat_body_def report_heartbeat_def time_sleep_def Let_def turn_events_def)

lemma turn_events_shift:
  "turn_events m os a (Suc k) (t + 60) = (\<lambda>i. turn_events m os a k t (Suc i))"
  by (rule ext) (simp add: turn_events_def)

lemma heartbeat_turns_eq:
  "heartbeat_turns n m os a s =
     \<lparr>ticks = ticks s + n, clock = clock s + 60 * n,
      trace = trace s @ concat (map (turn_events m os a (ticks s) (clock s)) [0..<n])\<rparr>"
proof (induction n arbitrary: s)
  case 0
  show ?case by simp
next
  case (Suc n)
  have "heartbeat_turns (Suc n) m os a s = heartbeat_turns n m os a (heartbeat_body m os a s)"
    by simp
  also have "\<dots> = \<lparr>ticks = ticks s + Suc n, clock = clock s + 60 * Suc n,
      trace = trace s @ turn_events m os a (ticks s) (clock s) 0 @
              concat (map (\<lambda>i. turn_events m os a (ticks s) (clock s) (Suc i)) [0..<n])\<rparr>"
    by (simp add: Suc.IH heartbeat_body_eq turn_events_shift)
  also have "\<dots> = \<lparr>ticks = ticks s + Suc n, clock = clock s + 60 * Suc n,
      trace = trace s @ concat (map (turn_events m os a (ticks s) (clock s)) [0..<Suc n])\<rparr>"
    by (simp only: map_upt_Suc concat.simps list.map)
  finally show ?case .
qed

lemma report_outcomes_turns:
  "report_outcomes (concat (map (turn_events m os a k t) is)) =
     map (\<lambda>i. run_outcome (m (k + i)) (heartbeat_command (m (k + i)) os a)) is"
  by (induction "is") (simp_all add: turn_events_def)

lemma report_times_turns:
  "report_times (concat (map (turn_events m os a k t) is)) = map (\<lambda>i. t + 60 * i) is"
  by (induction "is") (simp_all add: turn_events_def)

lemma sleeps_turns:
  "sleeps (concat (map (turn_events m os a k t) is)) = replicate (length is) 60"
  by (induction "is") (simp_all add: turn_events_def)

text \<open>
  Claim C5. The heartbeat loop never stops, whatever the report command does: the loop
  returns from no state, and on every machine, for every number \<open>n\<close> of turns, the first
  \<open>n\<close> turns hold \<open>n\<close> reports, one per turn with the outcome the machine gave at that
  turn (an exception or an exit status, both ignored), and \<open>n\<close> sleeps of 60 seconds each:
  no turn is skipped after a failure, no sleep grows, no count of failures ends the loop.
\<close>

theorem heartbeat_never_stops:
  "heartbeat_thread m os a s = None
   \<and> report_outcomes (trace (heartbeat_turns n m os a hb_start)) =
       map (\<lambda>i. run_outcome (m i) (heartbeat_command (m i) os a)) [0..<n]
   \<and> sleeps (trace (heartbeat_turns n m os a hb_start)) = replicate n 60"
  by (simp add: heartbeat_thread_None heartbeat_turns_eq hb_start_def report_outcomes_turns
        sleeps_turns)

text \<open>
  On a machine where the report command is missing during the first three turns: three
  failed reports, then the report is made again and succeeds, with 60 seconds of sleep
  after each.
\<close>

theorem heartbeat_never_stops_witness:
  "report_outcomes (trace (heartbeat_turns 5 flaky ''Linux'' ''agent7'' hb_start)) =
     [Raised (FileNotFoundError ''./scripts/agent_status.sh''),
      Raised (FileNotFoundError ''./scripts/agent_status.sh''),
      Raised (FileNotFoundError ''./scripts/agent_status.sh''),
      Exited 0, Exited 0]
   \<and> sleeps (trace (heartbeat_turns 5 flaky ''Linux'' ''agent7'' hb_start)) = [60, 60, 60, 60, 60]"
  using heartbeat_never_stops [of flaky "''Linux''" "''agent7''" hb_start 5]
  by (simp add: upt_rec run_outcome_def heartbeat_command_def flaky_def machine_with_def
        numeral_eq_Suc)

text \<open>
  Claim C10. The loop reports first and sleeps afterwards: the trace of the first \<open>n\<close>
  turns is, turn after turn, one report followed by one sleep of 60 seconds; it starts with
  a report made at clock 0, before any sleep, and report \<open>i\<close> is made when \<open>60 * i\<close>
  seconds have been slept. (The clock counts the seconds slept; the time the report
  command itself takes is not part of the model.)
\<close>

theorem heartbeat_reports_before_sleeping:
  "trace (heartbeat_turns n m os a hb_start) =
     concat (map (\<lambda>i. [Report (60 * i) (heartbeat_command (m i) os a)
                          (run_outcome (m i) (heartbeat_command (m i) os a)),
                        Sleep 60]) [0..<n])
   \<and> take 2 (trace (heartbeat_turns (Suc n) m os a hb_start)) =
       [Report 0 (heartbeat_command (m 0) os a) (run_outcome (m 0) (heartbeat_command (m 0) os a)),
        Sleep 60]
   \<and> report_times (trace (heartbeat_turns n m os a hb_start)) = map (\<lambda>i. 60 * i) [0..<n]"
proof -
  have ev: "turn_events m os a 0 0 = (\<lambda>i. [Report (60 * i) (heartbeat_command (m i) os a)
                          (run_outcome (m i) (heartbeat_command (m i) os a)), Sleep 60])"
    by (rule ext) (simp add: turn_events_def)
  have full: "trace (heartbeat_turns k m os a hb_start) =
                concat (map (turn_events m os a 0 0) [0..<k])" for k
    by (simp add: heartbeat_turns_eq hb_start_def)
  have first: "take 2 (trace (heartbeat_turns (Suc n) m os a hb_start)) = turn_events m os a 0 0 0"
    unfolding full by (simp only: map_upt_Suc concat.simps list.map) (simp add: turn_events_def)
  have times: "report_times (trace (heartbeat_turns n m os a hb_start)) = map (\<lambda>i. 60 * i) [0..<n]"
    unfolding full by (simp add: report_times_turns)
  show ?thesis
    using full [of n] first times by (simp add: ev)
qed

theorem heartbeat_reports_before_sleeping_witness:
  "trace (heartbeat_turns 2 flaky ''Linux'' ''agent7'' hb_start) =
     [Report 0 [''./scripts/agent_status.sh'', ''heartbeat'', ''agent7'']
        (Raised (FileNotFoundError ''./scripts/agent_status.sh'')),
      Sleep 60,
      Report 60 [''./scripts/agent_status.sh'', ''heartbeat'', ''agent7'']
        (Raised (FileNotFoundError ''./scripts/agent_status.sh'')),
      Sleep 60]
   \<and> report_times (trace (heartbeat_turns 2 flaky ''Linux'' ''agent7'' hb_start)) = [0, 60]"
  using heartbeat_reports_before_sleeping [of 2 flaky "''Linux''" "''agent7''"]
  by (simp add: upt_rec run_outcome_def heartbeat_command_def flaky_def machine_with_def
        numeral_eq_Suc)

subsection \<open>Starting the monitors\<close>

lemma os_type_cases:
  "fst (get_os_info e) =
     (if platform_system e = ''Darwin'' then ''macOS''
      else if platform_system e = ''Windows'' then ''Windows'' else ''Linux'')"
  by (simp add: get_os_info_def Let_def)

lemma kill_stale_eq:
  "kill_stale e os w =
     w\<lparr>launched := launched w @
          (if os \<noteq> ''Windows'' \<and> which e ''pkill''
           then [Run [''pkill'', ''-f'', ''scripts/watch_events.sh''] Inherit DevNull] else [])\<rparr>"
  by (simp add: kill_stale_def subprocess_run_def)

lemma unix_monitors_screen:
  assumes "which e ''screen''"
  shows "unix_monitors e w =
     Return [''screen'']
       (w\<lparr>stdout := stdout w @ [''Starting event monitor in screen session...''],
          launched := launched w @
            [Run [''screen'', ''-dmS'', ''event_monitor'', ''./scripts/watch_events.sh''] Inherit Inherit,
             Run [''screen'', ''-dmS'', ''agent_monitor'', ''watch'', ''-n'', ''10'',
                  ''./scripts/agent_status.sh'', ''list''] Inherit Inherit]\<rparr>)"
  using assms by (simp add: unix_monitors_def subprocess_run_def py_print_def)

lemma unix_monitors_tmux:
  assumes "\<not> which e ''screen''" and "which e ''tmux''"
  shows "unix_monitors e w =
     Return [''tmux'']
       (w\<lparr>stdout := stdout w @ [''Starting event monitor in tmux session...''],
          launched := launched w @
            [Run [''tmux'', ''new-session'', ''-d'', ''-s'', ''event_monitor'',
                  ''./scripts/watch_events.sh''] Inherit Inherit,
             Run [''tmux'', ''new-session'', ''-d'', ''-s'', ''agent_monitor'',
                  ''watch -n 10 ./scripts/agent_status.sh list''] Inherit Inherit]\<rparr>)"
  using assms by (simp add: unix_monitors_def subprocess_run_def py_print_def)

lemma unix_monitors_background:
  assumes "\<not> which e ''screen''" and "\<not> which e ''tmux''"
  shows "unix_monitors e w =
     (if which e watcher
      then Return []
             (w\<lparr>stdout := stdout w @ [''Starting event monitor in background...''],
                launched := launched w @ [Popen [watcher] False DevNull DevNull]\<rparr>)
      else Raise (FileNotFoundError watcher)
             (w\<lparr>stdout := stdout w @ [''Starting event monitor in background...'']\<rparr>))"
  using assms by (simp add: unix_monitors_def subprocess_Popen_def py_print_def watcher_def)

lemma start_monitoring_unix:
  assumes "platform_system e \<noteq> ''Windows''"
  shows "start_monitoring e w =
     and_then
       (unix_monitors e
          (kill_stale e (fst (get_os_info e))
             (py_print (colorize e (NL # ''Starting system services...'') MAGENTA) w)))
       (\<lambda>terminal_options w3.
          Return True
            (if terminal_options = [] then py_print (colorize e install_note YELLOW) w3 else w3))"
proof -
  have os: "fst (get_os_info e) \<noteq> ''Windows''"
           "fst (get_os_info e) = ''Linux'' \<or> fst (get_os_info e) = ''macOS''"
    using assms by (simp_all add: os_type_cases)
  show ?thesis
    by (cases "unix_monitors e
          (kill_stale e (fst (get_os_info e))
             (py_print (colorize e (NL # ''Starting system services...'') MAGENTA) w))")
       (simp_all add: start_monitoring_def Let_def os)
qed

lemma start_monitoring_windows:
  assumes "platform_system e = ''Windows''"
  shows "start_monitoring e w =
     Return True
       (if which e ''start''
        then w\<lparr>stdout := stdout w @
                  [colorize e (NL # ''Starting system services...'') MAGENTA,
                   ''Starting event monitoring in a new window...''],
               launched := launched w @
                  [Popen [''start'', ''bash.exe'', ''scripts/watch_events.sh''] True Inherit Inherit]\<rparr>
        else w\<lparr>stdout := stdout w @
                  [colorize e (NL # ''Starting system services...'') MAGENTA,
                   ''Starting event monitoring in a new window...'',
                   colorize e ''Warning: Unable to start monitoring automatically.'' YELLOW,
                   ''Please open a new terminal and run: bash.exe scripts/watch_events.sh'']\<rparr>)"
proof -
  have os: "fst (get_os_info e) = ''Windows''"
    using assms by (simp add: os_type_cases)
  show ?thesis
    by (simp add: start_monitoring_def Let_def os kill_stale_def subprocess_Popen_def py_print_def)
qed

lemma start_monitoring_screen:
  assumes "platform_system e \<noteq> ''Windows''" and "which e ''screen''"
  shows "start_monitoring e w =
     Return True
       (w\<lparr>stdout := stdout w @
            [colorize e (NL # ''Starting system services...'') MAGENTA,
             ''Starting event monitor in screen session...''],
          launched := launched (kill_stale e (fst (get_os_info e)) w) @
            [Run [''screen'', ''-dmS'', ''event_monitor'', ''./scripts/watch_events.sh''] Inherit Inherit,
             Run [''screen'', ''-dmS'', ''agent_monitor'', ''watch'', ''-n'', ''10'',
                  ''./scripts/agent_status.sh'', ''list''] Inherit Inherit]\<rparr>)"
  by (simp add: start_monitoring_unix [OF assms(1)] unix_monitors_screen [OF assms(2)]
        kill_stale_eq py_print_def)

lemma start_monitoring_tmux:
  assumes "platform_system e \<noteq> ''Windows''" and "\<not> which e ''screen''" and "which e ''tmux''"
  shows "start_monitoring e w =
     Return True
       (w\<lparr>stdout := stdout w @
            [colorize e (NL # ''Starting system services...'') MAGENTA,
             ''Starting event monitor in tmux session...''],
          launched := launched (kill_stale e (fst (get_os_info e)) w) @
            [Run [''tmux'', ''new-session'', ''-d'', ''-s'', ''event_monitor'',
                  ''./scripts/watch_events.sh''] Inherit Inherit,
             Run [''tmux'', ''new-session'', ''-d'', ''-s'', ''agent_monitor'',
                  ''watch -n 10 ./scripts/agent_status.sh list''] Inherit Inherit]\<rparr>)"
  by (simp add: start_monitoring_unix [OF assms(1)] unix_monitors_tmux [OF assms(2,3)]
        kill_stale_eq py_print_def)

lemma start_monitoring_background:
  assumes "platform_system e \<noteq> ''Windows''" and "\<not> which e ''screen''" and "\<not> which e ''tmux''"
    and "which e watcher"
  shows "start_monitoring e w =
     Return True
       (w\<lparr>stdout := stdout w @
            [colorize e (NL # ''Starting system services...'') MAGENTA,
             ''Starting event monitor in background...'',
             colorize e install_note YELLOW],
          launched := launched (kill_stale e (fst (get_os_info e)) w) @
            [Popen [watcher] False DevNull DevNull]\<rparr>)"
  by (simp add: start_monitoring_unix [OF assms(1)] unix_monitors_background [OF assms(2,3)]
        assms(4) kill_stale_eq py_print_def)

lemma start_monitoring_raises:
  assumes "platform_system e \<noteq> ''Windows''" and "\<not> which e ''screen''" and "\<not> which e ''tmux''"
    and "\<not> which e watcher"
  shows "start_monitoring e w =
     Raise (FileNotFoundError watcher)
       (w\<lparr>stdout := stdout w @
            [colorize e (NL # ''Starting system services...'') MAGENTA,
             ''Starting event monitor in background...''],
          launched := launched (kill_stale e (fst (get_os_info e)) w)\<rparr>)"
  by (simp add: start_monitoring_unix [OF assms(1)] unix_monitors_background [OF assms(2,3)]
        assms(4) kill_stale_eq py_print_def)

lemma start_monitoring_Return:
  assumes "platform_system e = ''Windows'' \<or> which e ''screen'' \<or> which e ''tmux'' \<or> which e watcher"
  shows "\<exists>w'. start_monitoring e w = Return True w'"
proof (cases "platform_system e = ''Windows''")
  case True
  show ?thesis by (simp add: start_monitoring_windows [OF True])
next
  case unix: False
  show ?thesis
  proof (cases "which e ''screen''")
    case True
    show ?thesis by (simp add: start_monitoring_screen [OF unix True])
  next
    case screen: False
    show ?thesis
    proof (cases "which e ''tmux''")
      case True
      show ?thesis by (simp add: start_monitoring_tmux [OF unix screen True])
    next
      case tmux: False
      with assms unix screen have "which e watcher" by simp
      then show ?thesis by (simp add: start_monitoring_background [OF unix screen tmux])
    qed
  qed
qed

text \<open>
  Claim C4. On Linux and macOS the launch strategy is a function of which tools resolve,
  tried in the order screen, tmux, background: the line that announces the strategy, the
  programs started after the stale-process kill and whether they run in the background
  are given by that order alone (in the background case the watcher is started if it can
  be).
\<close>

theorem strategy_selection:
  assumes "platform_system e \<noteq> ''Windows''"
  shows "stdout (except_pass (start_monitoring e w)) ! Suc (length (stdout w)) =
           (if which e ''screen'' then ''Starting event monitor in screen session...''
            else if which e ''tmux'' then ''Starting event monitor in tmux session...''
            else ''Starting event monitor in background...'')
       \<and> map program
           (drop (length (launched (kill_stale e (fst (get_os_info e)) w)))
              (launched (except_pass (start_monitoring e w)))) =
           (if which e ''screen'' then [''screen'', ''screen'']
            else if which e ''tmux'' then [''tmux'', ''tmux'']
            else if which e watcher then [watcher] else [])
       \<and> map background
           (drop (length (launched (kill_stale e (fst (get_os_info e)) w)))
              (launched (except_pass (start_monitoring e w)))) =
           (if which e ''screen'' then [False, False]
            else if which e ''tmux'' then [False, False]
            else if which e watcher then [True] else [])"
proof (cases "which e ''screen''")
  case True
  show ?thesis
    by (simp add: start_monitoring_screen [OF assms True] True nth_append)
next
  case screen: False
  show ?thesis
  proof (cases "which e ''tmux''")
    case True
    show ?thesis
      by (simp add: start_monitoring_tmux [OF assms screen True] screen True nth_append)
  next
    case tmux: False
    show ?thesis
    proof (cases "which e watcher")
      case True
      show ?thesis
        by (simp add: start_monitoring_background [OF assms screen tmux True] screen tmux
              True [unfolded watcher_def] nth_append watcher_def)
    next
      case False
      show ?thesis
        by (simp add: start_monitoring_raises [OF assms screen tmux False] screen tmux False
              nth_append)
    qed
  qed
qed

lemma machine_with_simps [simp]:
  "platform_system (machine_with os cmds) = os"
  "which (machine_with os cmds) c = (c \<in> set cmds)"
  "environ (machine_with os cmds) v = False"
  "stdout_isatty (machine_with os cmds) = False"
  "exit_status (machine_with os cmds) argv = 0"
  "kill_ok (machine_with os cmds) pid = True"
  by (simp_all add: machine_with_def)

lemma plain_text [simp]: "colorize (machine_with os cmds) text color = text"
  by (simp add: colorize_def supports_color_def)

lemma stale_kill_length:
  "os \<noteq> ''Windows'' \<Longrightarrow> ''pkill'' \<in> set cmds \<Longrightarrow>
     length (launched (kill_stale (machine_with os' cmds) os fresh_world)) = 1"
  by (simp add: kill_stale_eq fresh_world_def)

theorem strategy_selection_witness:
  "platform_system (machine_with ''Linux'' (''screen'' # ''tmux'' # watcher # base_commands)) \<noteq> ''Windows''
   \<and> map program
        (drop 1 (launched (except_pass
           (start_monitoring (machine_with ''Linux'' (''screen'' # ''tmux'' # watcher # base_commands))
              fresh_world)))) = [''screen'', ''screen'']
   \<and> map program
        (drop 1 (launched (except_pass
           (start_monitoring (machine_with ''Linux'' (''tmux'' # watcher # base_commands))
              fresh_world)))) = [''tmux'', ''tmux'']
   \<and> map program
        (drop 1 (launched (except_pass
           (start_monitoring (machine_with ''Linux'' (watcher # base_commands)) fresh_world)))) =
       [''./scripts/watch_events.sh'']
   \<and> map background
        (drop 1 (launched (except_pass
           (start_monitoring (machine_with ''Linux'' (watcher # base_commands)) fresh_world)))) =
       [True]"
proof -
  have unix: "platform_system (machine_with ''Linux'' cmds) \<noteq> ''Windows''" for cmds
    by simp
  have stale: "length (launched (kill_stale (machine_with ''Linux'' (xs @ base_commands))
                  (fst (get_os_info (machine_with ''Linux'' (xs @ base_commands)))) fresh_world)) = 1" for xs
    by (rule stale_kill_length) (simp_all add: os_type_cases base_commands_def)
  show ?thesis
    using
      strategy_selection [OF unix, of "''screen'' # ''tmux'' # watcher # base_commands" fresh_world]
      strategy_selection [OF unix, of "''tmux'' # watcher # base_commands" fresh_world]
      strategy_selection [OF unix, of "watcher # base_commands" fresh_world]
      stale [of "[''screen'', ''tmux'', watcher]"] stale [of "[''tmux'', watcher]"] stale [of "[watcher]"]
    by (simp add: watcher_def base_commands_def)
qed

text \<open>
  With neither screen nor tmux, a watcher script that can be started is started as a
  process the script does not wait for, with its output discarded, and the note that
  recommends a multiplexer is printed.
\<close>

lemma background_launch_when_startable:
  assumes "platform_system e \<noteq> ''Windows''" and "\<not> which e ''screen''" and "\<not> which e ''tmux''"
    and "which e watcher"
  shows "start_monitoring e w =
     Return True
       (w\<lparr>stdout := stdout w @
            [colorize e (NL # ''Starting system services...'') MAGENTA,
             ''Starting event monitor in background...'',
             colorize e
               ''NOTE: Install 'screen' or 'tmux' for better background process management.''
               YELLOW],
          launched := launched w @
            (if which e ''pkill''
             then [Run [''pkill'', ''-f'', ''scripts/watch_events.sh''] Inherit DevNull] else []) @
            [Popen [''./scripts/watch_events.sh''] False DevNull DevNull]\<rparr>)"
  using assms(1)
  by (simp add: start_monitoring_background [OF assms] kill_stale_eq os_type_cases
        install_note_def watcher_def)

lemma background_launch_on_macOS:
  "start_monitoring (machine_with ''Darwin'' (watcher # base_commands)) fresh_world =
     Return True
       (fresh_world\<lparr>stdout :=
          [NL # ''Starting system services...'',
           ''Starting event monitor in background...'',
           ''NOTE: Install 'screen' or 'tmux' for better background process management.''],
          launched :=
            [Run [''pkill'', ''-f'', ''scripts/watch_events.sh''] Inherit DevNull,
             Popen [''./scripts/watch_events.sh''] False DevNull DevNull]\<rparr>)"
proof -
  let ?e = "machine_with ''Darwin'' (watcher # base_commands)"
  have h: "platform_system ?e \<noteq> ''Windows''" "\<not> which ?e ''screen''" "\<not> which ?e ''tmux''"
          "which ?e watcher"
    by (simp_all add: base_commands_def watcher_def)
  show ?thesis
    using background_launch_when_startable [OF h, of fresh_world]
    by (simp add: base_commands_def watcher_def fresh_world_def)
qed

text \<open>
  Claim C6 says that on Linux and macOS with neither screen nor tmux the event watcher is
  still started as a background process and the note recommending a multiplexer is
  printed. The code on a Linux machine without screen and without tmux whose watcher
  script cannot be started: \<^verbatim>\<open>subprocess.Popen\<close> raises \<^verbatim>\<open>FileNotFoundError\<close> outside
  any \<^verbatim>\<open>try\<close>, so \<^verbatim>\<open>start_monitoring\<close> ends there: only \<^verbatim>\<open>pkill\<close> has been run, no
  watcher is started, and the last line printed is the announcement, not the note.
\<close>

theorem fallback_raises_before_advisory:
  "platform_system (machine_with ''Linux'' base_commands) \<noteq> ''Windows''
   \<and> \<not> which (machine_with ''Linux'' base_commands) ''screen''
   \<and> \<not> which (machine_with ''Linux'' base_commands) ''tmux''
   \<and> start_monitoring (machine_with ''Linux'' base_commands) fresh_world =
       Raise (FileNotFoundError ''./scripts/watch_events.sh'')
         (fresh_world\<lparr>stdout :=
            [NL # ''Starting system services...'', ''Starting event monitor in background...''],
            launched := [Run [''pkill'', ''-f'', ''scripts/watch_events.sh''] Inherit DevNull]\<rparr>)"
proof -
  let ?e = "machine_with ''Linux'' base_commands"
  have h: "platform_system ?e \<noteq> ''Windows''" "\<not> which ?e ''screen''" "\<not> which ?e ''tmux''"
          "\<not> which ?e watcher"
    by (simp_all add: base_commands_def watcher_def)
  show ?thesis
    using h(1-3) start_monitoring_raises [OF h, of fresh_world]
    by (simp add: kill_stale_eq os_type_cases base_commands_def watcher_def fresh_world_def)
qed

text \<open>
  Claim C7. When screen or tmux is chosen, exactly two commands are run after the
  stale-process kill, each creating one detached session: \<^verbatim>\<open>event_monitor\<close> runs the
  event watcher and \<^verbatim>\<open>agent_monitor\<close> runs \<^verbatim>\<open>watch -n 10 ./scripts/agent_status.sh list\<close>,
  the status lister polled every 10 seconds.
\<close>

theorem multiplexer_sessions:
  assumes "platform_system e \<noteq> ''Windows''" and "which e ''screen'' \<or> which e ''tmux''"
  shows "returned (start_monitoring e w) = Some True
       \<and> drop (length (launched (kill_stale e (fst (get_os_info e)) w)))
            (launched (except_pass (start_monitoring e w))) =
           (if which e ''screen''
            then [Run [''screen'', ''-dmS'', ''event_monitor'', ''./scripts/watch_events.sh'']
                    Inherit Inherit,
                  Run [''screen'', ''-dmS'', ''agent_monitor'', ''watch'', ''-n'', ''10'',
                       ''./scripts/agent_status.sh'', ''list''] Inherit Inherit]
            else [Run [''tmux'', ''new-session'', ''-d'', ''-s'', ''event_monitor'',
                       ''./scripts/watch_events.sh''] Inherit Inherit,
                  Run [''tmux'', ''new-session'', ''-d'', ''-s'', ''agent_monitor'',
                       ''watch -n 10 ./scripts/agent_status.sh list''] Inherit Inherit])"
proof (cases "which e ''screen''")
  case True
  show ?thesis
    by (simp add: start_monitoring_screen [OF assms(1) True] True returned_def)
next
  case False
  with assms(2) have tmux: "which e ''tmux''" by simp
  show ?thesis
    by (simp add: start_monitoring_tmux [OF assms(1) False tmux] False returned_def)
qed

theorem multiplexer_sessions_witness:
  "platform_system (machine_with ''Linux'' (''tmux'' # base_commands)) \<noteq> ''Windows''
   \<and> (which (machine_with ''Linux'' (''tmux'' # base_commands)) ''screen''
        \<or> which (machine_with ''Linux'' (''tmux'' # base_commands)) ''tmux'')
   \<and> returned (start_monitoring (machine_with ''Linux'' (''tmux'' # base_commands)) fresh_world) =
       Some True
   \<and> drop 1 (launched (except_pass
        (start_monitoring (machine_with ''Linux'' (''tmux'' # base_commands)) fresh_world))) =
       [Run [''tmux'', ''new-session'', ''-d'', ''-s'', ''event_monitor'',
             ''./scripts/watch_events.sh''] Inherit Inherit,
        Run [''tmux'', ''new-session'', ''-d'', ''-s'', ''agent_monitor'',
             ''watch -n 10 ./scripts/agent_status.sh list''] Inherit Inherit]"
proof -
  let ?e = "machine_with ''Linux'' (''tmux'' # base_commands)"
  have h: "platform_system ?e \<noteq> ''Windows''" "which ?e ''screen'' \<or> which ?e ''tmux''"
    by simp_all
  have stale: "length (launched (kill_stale ?e (fst (get_os_info ?e)) fresh_world)) = 1"
    by (rule stale_kill_length) (simp_all add: os_type_cases base_commands_def)
  show ?thesis
    using h multiplexer_sessions [OF h, of fresh_world] stale
    by (simp add: base_commands_def)
qed



subsection \<open>The main sequence\<close>

lemma returned_and_then:
  "returned (and_then r f) = Some v \<Longrightarrow> \<exists>u w. r = Return u w \<and> returned (f u w) = Some v"
  by (cases r) simp_all

lemma bring_up_returns_0:
  assumes "returned (bring_up e w) = Some rc"
  shows "rc = 0"
  using assms unfolding bring_up_def join_collaboration_def
  by (auto dest!: returned_and_then split: prod.splits)

text \<open>What is missing depends on the machine only.\<close>

lemma missing_deps_eq:
  "fst (check_dependencies e w) =
     (if which e ''jq'' then [] else [''jq'']) @
     (if platform_system e \<noteq> ''Darwin'' \<and> platform_system e \<noteq> ''Windows'' \<and> \<not> which e ''inotifywait''
      then [''inotify-tools''] else []) @
     (if platform_system e = ''Darwin'' \<and> \<not> which e ''fswatch'' then [''fswatch''] else [])"
  by (simp add: check_dependencies_def os_type_cases Let_def)

lemma check_dependencies_world:
  "snd (check_dependencies e w) = w\<lparr>stdout := stdout w @ [colorize e ''[1/5]'' BLUE @ '' Checking dependencies...'']\<rparr>"
  by (simp add: check_dependencies_def Let_def py_print2_def py_print_def)

lemma main_no_missing:
  assumes "fst (check_dependencies e w) = []"
  shows "main e w =
     bring_up e
       (snd (check_dependencies e
          (py_print (''Detected operating system: '' @ colorize e (fst (get_os_info e)) CYAN @ [NL]) w)))"
proof -
  have "fst (check_dependencies e w') = []" for w'
    using assms by (simp add: missing_deps_eq)
  then show ?thesis
    by (simp add: main_def Let_def split_beta)
qed

lemma main_exit_1:
  "(returned (main e w) = Some 1) =
     (fst (check_dependencies e w) \<noteq> [] \<and>
      returned
        (install_dependencies e (fst (check_dependencies e w))
           (snd (check_dependencies e
              (py_print (''Detected operating system: '' @ colorize e (fst (get_os_info e)) CYAN @ [NL])
                 w)))) = Some False)"
proof (cases "fst (check_dependencies e w) = []")
  case True
  have "returned (main e w) \<noteq> Some 1"
    using bring_up_returns_0 [of e _ 1] by (auto simp: main_no_missing [OF True])
  with True show ?thesis by simp
next
  case False
  let ?w1 = "py_print (''Detected operating system: '' @ colorize e (fst (get_os_info e)) CYAN @ [NL]) w"
  have same: "fst (check_dependencies e ?w1) = fst (check_dependencies e w)"
    by (simp add: missing_deps_eq)
  show ?thesis
  proof (cases "install_dependencies e (fst (check_dependencies e w)) (snd (check_dependencies e ?w1))")
    case (Return ok w3)
    have "returned (bring_up e w3) \<noteq> Some 1"
      using bring_up_returns_0 [of e w3 1] by auto
    then show ?thesis
      using False same Return by (simp add: main_def Let_def split_beta)
  next
    case (Raise x w3)
    then show ?thesis
      using False same by (simp add: main_def Let_def split_beta)
  qed
qed

lemma create_if_missing_frame [simp]:
  "stdin (create_if_missing p c w) = stdin w"
  "stdout (create_if_missing p c w) = stdout w"
  "launched (create_if_missing p c w) = launched w"
  "threads (create_if_missing p c w) = threads w"
  "signalled (create_if_missing p c w) = signalled w"
  by (simp_all add: create_if_missing_def)

lemma scaffolding_frame [simp]:
  "stdin (make_scripts_executable e (initialize_files e w)) = stdin w"
  "launched (make_scripts_executable e (initialize_files e w)) = launched w"
  "threads (make_scripts_executable e (initialize_files e w)) = threads w"
  "signalled (make_scripts_executable e (initialize_files e w)) = signalled w"
  by (simp_all add: make_scripts_executable_def initialize_files_def py_print_def py_print2_def Let_def)

lemma prepared_frame [simp]:
  "launched (prepared e w) = launched w"
  "threads (prepared e w) = threads w"
  "signalled (prepared e w) = signalled w"
  by (simp_all add: prepared_def Let_def py_print_def py_print2_def)

lemma configure_agent_eq:
  assumes "stdin w = a # t # d # rest"
  shows "configure_agent e w =
     Return (a, t, d)
       (w\<lparr>stdout := stdout w @
              [colorize e ''[5/5]'' BLUE @ '' Configuring your agent...'',
               ''Enter your agent ID (e.g., agent1): '',
               ''Enter your agent type (e.g., llm, coding, research): '',
               ''Enter a brief agent description: ''],
          stdin := rest\<rparr>)"
  using assms by (simp add: configure_agent_def py_input_def py_print_def py_print2_def)

lemma bring_up_eq:
  assumes "files w ''logs'' = None" and "stdin w = a # t # d # rest"
  shows "bring_up e w =
     and_then (start_monitoring e (prepared e w)) (\<lambda>_ w3. join_collaboration e a t d w3)"
proof -
  let ?w1 = "py_print (colorize e (check_mark @ '' Directory structure set up.'') GREEN)
                 ((py_print2 (colorize e ''[2/5]'' BLUE) ''Setting up directory structure...'' w)
                    \<lparr>dirs := insert ''logs'' (dirs w)\<rparr>)"
  have dirs: "setup_directories e w = Return () ?w1"
    using assms(1) by (simp add: setup_directories_def py_print_def py_print2_def)
  have inp: "stdin (make_scripts_executable e (initialize_files e ?w1)) = a # t # d # rest"
    using assms(2) by (simp add: py_print_def py_print2_def)
  have "configure_agent e (make_scripts_executable e (initialize_files e ?w1)) =
          Return (a, t, d) (prepared e w)"
    unfolding configure_agent_eq [OF inp]
    using assms(2) by (simp add: prepared_def Let_def py_print_def py_print2_def)
  then show ?thesis
    by (simp add: bring_up_def dirs)
qed

lemma main_aborts_without_watcher:
  assumes "platform_system e \<noteq> ''Windows''" and "\<not> which e ''screen''" and "\<not> which e ''tmux''"
    and "\<not> which e watcher"
    and "fst (check_dependencies e w) = []"
    and "files w ''logs'' = None" and "stdin w = a # t # d # rest"
  shows "raised (main e w) = Some (FileNotFoundError watcher)"
    and "threads (except_pass (main e w)) = threads w"
    and "launched (except_pass (main e w)) = launched (kill_stale e (fst (get_os_info e)) w)"
proof -
  define w0 where "w0 = snd (check_dependencies e
          (py_print (''Detected operating system: '' @ colorize e (fst (get_os_info e)) CYAN @ [NL]) w))"
  have w0: "files w0 ''logs'' = None" "stdin w0 = a # t # d # rest"
           "threads w0 = threads w" "launched w0 = launched w"
    using assms(6,7) by (simp_all add: w0_def check_dependencies_world py_print_def)
  have m: "main e w =
     and_then (start_monitoring e (prepared e w0)) (\<lambda>_ w3. join_collaboration e a t d w3)"
    unfolding w0_def
    by (simp only: main_no_missing [OF assms(5)] bring_up_eq [OF w0(1,2) [unfolded w0_def]])
  show "raised (main e w) = Some (FileNotFoundError watcher)"
    by (simp add: m start_monitoring_raises [OF assms(1-4)])
  show "threads (except_pass (main e w)) = threads w"
    by (simp add: m start_monitoring_raises [OF assms(1-4)] w0)
  show "launched (except_pass (main e w)) = launched (kill_stale e (fst (get_os_info e)) w)"
    by (simp add: m start_monitoring_raises [OF assms(1-4)] w0 kill_stale_eq)
qed

text \<open>
  Claim C8 says that only a missing dependency ends the set-up and that no failure of the
  monitor launch or of the heartbeat start does. The code on a Linux machine with every
  dependency and every other script in place, but without screen, without tmux and with
  an event watcher that cannot be started: no dependency is missing, yet \<^verbatim>\<open>main\<close> ends
  with the \<^verbatim>\<open>FileNotFoundError\<close> of \<^verbatim>\<open>subprocess.Popen\<close>, raised outside any
  \<^verbatim>\<open>try\<close>; the agent is not registered and no heartbeat is started.
\<close>

theorem setup_aborts_when_watcher_cannot_start:
  "fst (check_dependencies (machine_with ''Linux'' base_commands) fresh_world) = []
   \<and> raised (main (machine_with ''Linux'' base_commands) fresh_world) =
       Some (FileNotFoundError ''./scripts/watch_events.sh'')
   \<and> threads (except_pass (main (machine_with ''Linux'' base_commands) fresh_world)) = []
   \<and> launched (except_pass (main (machine_with ''Linux'' base_commands) fresh_world)) =
       [Run [''pkill'', ''-f'', ''scripts/watch_events.sh''] Inherit DevNull]"
proof -
  let ?e = "machine_with ''Linux'' base_commands"
  have h: "platform_system ?e \<noteq> ''Windows''" "\<not> which ?e ''screen''" "\<not> which ?e ''tmux''"
          "\<not> which ?e watcher"
    by (simp_all add: base_commands_def watcher_def)
  have deps: "fst (check_dependencies ?e fresh_world) = []"
    by (simp add: missing_deps_eq base_commands_def)
  have w: "files fresh_world ''logs'' = None" "stdin fresh_world = ''agent7'' # ''llm'' # ''demo'' # []"
    by (simp_all add: fresh_world_def)
  show ?thesis
    using deps main_aborts_without_watcher [OF h deps w]
    by (simp add: watcher_def kill_stale_eq os_type_cases fresh_world_def base_commands_def)
qed

lemma join_collaboration_returns:
  assumes "which e (if platform_system e = ''Windows'' then shell_cmd e else ''./scripts/agent_status.sh'')"
    and "which e (if platform_system e = ''Windows'' then shell_cmd e else ''./scripts/log_event.sh'')"
    and "which e (if platform_system e = ''Windows'' then shell_cmd e
                  else ''./scripts/generate_snapshot.sh'')"
  shows "returned (join_collaboration e a t d w) = Some 0"
  using assms
  by (cases "platform_system e = ''Windows''")
     (simp_all add: join_collaboration_def register_agent_def send_message_def generate_snapshot_def
        subprocess_run_def start_heartbeat_eq os_type_cases Let_def)

text \<open>
  What the supervision core handles itself never ends the set-up: with the dependencies
  there, the operator's answers given and the commands that are run outside any
  \<^verbatim>\<open>try\<close> startable, \<^verbatim>\<open>main\<close> returns 0, whatever \<^verbatim>\<open>pkill\<close> and \<^verbatim>\<open>os.kill\<close> do,
  whatever the PID file holds and whether or not Windows has a \<^verbatim>\<open>start\<close> command.
\<close>

lemma main_completes:
  assumes "fst (check_dependencies e w) = []"
    and "files w ''logs'' = None" and "stdin w = a # t # d # rest"
    and "platform_system e = ''Windows'' \<or> which e ''screen'' \<or> which e ''tmux'' \<or> which e watcher"
    and "which e (if platform_system e = ''Windows'' then shell_cmd e else ''./scripts/agent_status.sh'')"
    and "which e (if platform_system e = ''Windows'' then shell_cmd e else ''./scripts/log_event.sh'')"
    and "which e (if platform_system e = ''Windows'' then shell_cmd e
                  else ''./scripts/generate_snapshot.sh'')"
  shows "returned (main e w) = Some 0"
proof -
  define w0 where "w0 = snd (check_dependencies e
          (py_print (''Detected operating system: '' @ colorize e (fst (get_os_info e)) CYAN @ [NL]) w))"
  have w0: "files w0 ''logs'' = None" "stdin w0 = a # t # d # rest"
    using assms(2,3) by (simp_all add: w0_def check_dependencies_world py_print_def)
  have m: "main e w =
     and_then (start_monitoring e (prepared e w0)) (\<lambda>_ w3. join_collaboration e a t d w3)"
    unfolding w0_def
    by (simp only: main_no_missing [OF assms(1)] bring_up_eq [OF w0(1,2) [unfolded w0_def]])
  obtain w' where "start_monitoring e (prepared e w0) = Return True w'"
    using start_monitoring_Return [OF assms(4)] by blast
  then show ?thesis
    by (simp add: m join_collaboration_returns [OF assms(5-7)])
qed

end
